theory Spec2Isabelle
  imports Main "HOL-Library.Word" "HOL-Library.Sublist"
begin

unbundle bit_operations_syntax

section \<open>Bytes, strings and the base64 helpers (utils, src/unnamed/part_008)\<close>

text \<open>
  A \<open>Uint8Array\<close> (and the \<open>ArrayBuffer\<close> behind it) is a list of 8-bit words. A
  JavaScript number that takes part in the bit operators is an \<open>int\<close>: every value the
  helpers shift or mask lies between \<open>-1\<close> and \<open>255\<close>, so the 32-bit wrap-around of
  \<open><<\<close> never happens; \<open>drop_bit\<close> on \<open>int\<close> is the sign-propagating \<open>>>\<close>.
  A JavaScript string is a \<open>string\<close>.
\<close>

type_synonym byte = "8 word"
type_synonym bytes = "byte list"

definition chars :: string where
  "chars = ''ABCDEFGHIJKLMNOPQRSTUVWXYZabcdefghijklmnopqrstuvwxyz0123456789+/''"

text \<open>\<open>String.prototype.charAt\<close>: the one-character string at a position, or the empty
  string when the position is out of range.\<close>

definition charAt :: "string \<Rightarrow> int \<Rightarrow> string" where
  "charAt s i = (if 0 \<le> i \<and> i < int (length s) then [s ! nat i] else [])"

text \<open>\<open>String.prototype.indexOf\<close>: the first position where the needle starts, \<open>-1\<close>
  when there is none; the empty needle is found at position \<open>0\<close>.\<close>

fun indexOf_from :: "string \<Rightarrow> string \<Rightarrow> int \<Rightarrow> int" where
  "indexOf_from [] s k = (if s = [] then k else - 1)"
| "indexOf_from (x # xs) s k = (if prefix s (x # xs) then k else indexOf_from xs s (k + 1))"

definition indexOf :: "string \<Rightarrow> string \<Rightarrow> int" where
  "indexOf hay s = indexOf_from hay s 0"

text \<open>Reading \<open>bytes[i]\<close>: the element as a number, \<open>undefined\<close> (here \<open>None\<close>) past the
  end. Under the bit operators \<open>undefined\<close> counts as \<open>0\<close>; \<open>isNaN(undefined)\<close> is true.\<close>

definition elemAt :: "bytes \<Rightarrow> nat \<Rightarrow> int option" where
  "elemAt bs i = (if i < length bs then Some (uint (bs ! i)) else None)"

definition toInt32 :: "int option \<Rightarrow> int" where
  "toInt32 v = (case v of None \<Rightarrow> 0 | Some n \<Rightarrow> n)"

definition isNaN :: "int option \<Rightarrow> bool" where
  "isNaN v = (v = None)"

function arrayBufferToBase64_loop :: "bytes \<Rightarrow> nat \<Rightarrow> string \<Rightarrow> string" where
  "arrayBufferToBase64_loop bs i result =
     (if i < length bs then
        (let byte1 = elemAt bs i;
             byte2 = elemAt bs (i + 1);
             byte3 = elemAt bs (i + 2);
             enc1 = drop_bit 2 (toInt32 byte1);
             enc2 = push_bit 4 (toInt32 byte1 AND 3) OR drop_bit 4 (toInt32 byte2);
             enc3 = push_bit 2 (toInt32 byte2 AND 15) OR drop_bit 6 (toInt32 byte3);
             enc4 = toInt32 byte3 AND 63
         in arrayBufferToBase64_loop bs (i + 3)
              (if isNaN byte2 then
                 result @ charAt chars enc1 @ charAt chars enc2 @ ''==''
               else if isNaN byte3 then
                 result @ charAt chars enc1 @ charAt chars enc2 @ charAt chars enc3 @ ''=''
               else
                 result @ charAt chars enc1 @ charAt chars enc2 @ charAt chars enc3
                   @ charAt chars enc4))
      else result)"
  by pat_completeness auto
termination
  by (relation "measure (\<lambda>(bs, i, result). length bs - i)") auto

definition arrayBufferToBase64 :: "bytes \<Rightarrow> string" where
  "arrayBufferToBase64 buffer = arrayBufferToBase64_loop buffer 0 []"

text \<open>\<open>base64.replace(/=+$/, '')\<close>: the string without its trailing run of \<open>=\<close>.\<close>

definition stripPadding :: "string \<Rightarrow> string" where
  "stripPadding s = rev (dropWhile (\<lambda>c. c = CHR ''='') (rev s))"

text \<open>Writing \<open>bytes[p] = v\<close> on a \<open>Uint8Array\<close>: the value is stored modulo 256, and a
  write past the end is ignored.\<close>

definition store :: "bytes \<Rightarrow> nat \<Rightarrow> int \<Rightarrow> bytes" where
  "store bs p v = (if p < length bs then bs[p := word_of_int v] else bs)"

function base64ToArrayBuffer_loop :: "string \<Rightarrow> nat \<Rightarrow> nat \<Rightarrow> bytes \<Rightarrow> bytes" where
  "base64ToArrayBuffer_loop s i p bs =
     (if i < length s then
        (let enc1 = indexOf chars (charAt s (int i));
             enc2 = indexOf chars (charAt s (int i + 1));
             enc3 = indexOf chars (charAt s (int i + 2));
             enc4 = indexOf chars (charAt s (int i + 3));
             bs1 = store bs p (push_bit 2 enc1 OR drop_bit 4 enc2);
             p1 = p + 1;
             bs2 = (if enc3 \<noteq> - 1
                    then store bs1 p1 (push_bit 4 (enc2 AND 15) OR drop_bit 2 enc3) else bs1);
             p2 = (if enc3 \<noteq> - 1 then p1 + 1 else p1);
             bs3 = (if enc4 \<noteq> - 1
                    then store bs2 p2 (push_bit 6 (enc3 AND 3) OR enc4) else bs2);
             p3 = (if enc4 \<noteq> - 1 then p2 + 1 else p2)
         in base64ToArrayBuffer_loop s (i + 4) p3 bs3)
      else bs)"
  by pat_completeness auto
termination
  by (relation "measure (\<lambda>(s, i, p, bs). length s - i)") auto

text \<open>The array is created with \<open>new Uint8Array((cleanBase64.length * 3) / 4)\<close>; a
  fractional length is truncated by the constructor (\<open>ToIndex\<close>), and the array starts
  zero-filled.\<close>

definition base64ToArrayBuffer :: "string \<Rightarrow> bytes" where
  "base64ToArrayBuffer base64 =
     (let cleanBase64 = stripPadding base64;
          len = (length cleanBase64 * 3) div 4
      in base64ToArrayBuffer_loop cleanBase64 0 0 (replicate len 0))"


text \<open>\<open>generateKeyId\<close> writes eight random bytes as lower-case hexadecimal,
  \<open>b.toString(16).padStart(2, '0')\<close> for each byte.\<close>

definition hexDigits :: string where
  "hexDigits = ''0123456789abcdef''"

function toString16 :: "nat \<Rightarrow> string" where
  "toString16 n =
     (if n < 16 then [hexDigits ! n] else toString16 (n div 16) @ [hexDigits ! (n mod 16)])"
  by pat_completeness auto
termination
  by (relation "measure (\<lambda>n. n)") auto

definition padStart2 :: "string \<Rightarrow> string" where
  "padStart2 s = replicate (2 - length s) CHR ''0'' @ s"

section \<open>The platform (Web Crypto, text codec, JSON) and errors\<close>

text \<open>
  The cryptographic primitives, the UTF-8 codec and JSON are supplied by the host
  (\<open>crypto.subtle\<close>, \<open>crypto.getRandomValues\<close>, \<open>TextEncoder\<close>, \<open>TextDecoder\<close>,
  \<open>JSON\<close>, \<open>Date\<close>); the repository only calls them. They are a parameter of the
  model: a record of functions over a type \<open>'k\<close> of \<open>CryptoKey\<close>s, a type \<open>'j\<close> of
  \<open>JsonWebKey\<close>s, a type \<open>'r\<close> of states of the entropy source and a type \<open>'e\<close> of
  errors the platform rejects with. Operations that draw randomness take the entropy
  state and return the next one. A \<open>CryptoKey\<close> stands for its algorithm and key
  material; the extractable flag and the usage list given at import are not modelled
  (the source uses every key only for a usage it was created with).
\<close>

datatype key_usage = Encrypt | Decrypt

record ('k, 'j, 'r, 'e) provider =
  generateKey_aes :: "'r \<Rightarrow> ('e + 'k) \<times> 'r"
  generateKey_rsa :: "'r \<Rightarrow> ('e + 'k \<times> 'k) \<times> 'r"
  importKey_jwk :: "key_usage \<Rightarrow> 'j \<Rightarrow> 'e + 'k"
  exportKey_jwk :: "'k \<Rightarrow> 'e + 'j"
  importKey_raw_aes :: "bytes \<Rightarrow> 'e + 'k"
  exportKey_raw :: "'k \<Rightarrow> 'e + bytes"
  importKey_raw_pbkdf2 :: "bytes \<Rightarrow> 'e + 'k"
  deriveKey_pbkdf2 :: "'k \<Rightarrow> bytes \<Rightarrow> nat \<Rightarrow> 'e + 'k"
  encrypt_aes_gcm :: "'k \<Rightarrow> bytes \<Rightarrow> bytes \<Rightarrow> 'e + bytes"
  decrypt_aes_gcm :: "'k \<Rightarrow> bytes \<Rightarrow> bytes \<Rightarrow> 'e + bytes"
  encrypt_rsa_oaep :: "'k \<Rightarrow> bytes \<Rightarrow> 'r \<Rightarrow> ('e + bytes) \<times> 'r"
  decrypt_rsa_oaep :: "'k \<Rightarrow> bytes \<Rightarrow> 'e + bytes"
  getRandomValues :: "nat \<Rightarrow> 'r \<Rightarrow> bytes \<times> 'r"
  textEncode :: "string \<Rightarrow> bytes"
  textDecode :: "bytes \<Rightarrow> string"
  json_stringify :: "(string \<times> 'j) list \<Rightarrow> string"
  json_parse :: "string \<Rightarrow> 'e + (string \<times> 'j) list"
  toISOString :: "nat \<Rightarrow> string"

text \<open>What an operation of the repository rejects with: an error of the platform, passed
  on unchanged, or an \<open>Error\<close> object the code creates itself, with its message.\<close>

datatype 'e error = Platform 'e | Error string

text \<open>\<open>await\<close> on a promise: a rejection ends the function with that rejection.\<close>

definition platform :: "'e + 'a \<Rightarrow> 'e error + 'a" where
  "platform x = (case x of Inl e \<Rightarrow> Inl (Platform e) | Inr v \<Rightarrow> Inr v)"

definition await :: "'x + 'a \<Rightarrow> ('a \<Rightarrow> 'x + 'b) \<Rightarrow> 'x + 'b" where
  "await x f = (case x of Inl e \<Rightarrow> Inl e | Inr v \<Rightarrow> f v)"

definition awaitS :: "'x + 'a \<Rightarrow> 'r \<Rightarrow> ('a \<Rightarrow> ('x + 'b) \<times> 'r) \<Rightarrow> ('x + 'b) \<times> 'r" where
  "awaitS x r f = (case x of Inl e \<Rightarrow> (Inl e, r) | Inr v \<Rightarrow> f v)"

definition generateKeyId :: "('k, 'j, 'r, 'e) provider \<Rightarrow> 'r \<Rightarrow> string \<times> 'r" where
  "generateKeyId P r =
     (case getRandomValues P 8 r of
        (bs, r1) \<Rightarrow> (concat (map (\<lambda>b. padStart2 (toString16 (unat b))) bs), r1))"

section \<open>Data model (src/src/types/index.ts, src/unnamed/part_009)\<close>

record 'j KeyPair =
  publicKey :: 'j
  privateKey :: 'j
  keyId :: string
  createdAt :: nat

record EncryptedMessage =
  encrypted :: bool
  version :: string
  data :: string
  key :: string
  iv :: string

record GroupEncryptedMessage =
  encrypted :: bool
  version :: string
  data :: string
  iv :: string
  keyId :: string

record EncryptedKeyBundle =
  version :: string
  algorithm :: string
  iterations :: nat
  salt :: string
  iv :: string
  ciphertext :: string
  exportedAt :: string

record 'j ParticipantKey =
  publicKey :: 'j
  keyId :: string

record GroupKeyBundle =
  keyId :: string
  encryptedKeys :: "string \<rightharpoonup> string"
  createdAt :: nat
  createdBy :: string

record 'k GroupKeyResult =
  keyBundle :: GroupKeyBundle
  groupKey :: 'k

section \<open>Key generation (keyGeneration, src/unnamed/part_010)\<close>


definition generateGroupSymmetricKey ::
  "('k, 'j, 'r, 'e) provider \<Rightarrow> 'r \<Rightarrow> ('e error + 'k \<times> string) \<times> 'r" where
  "generateGroupSymmetricKey P r =
     (case generateKey_aes P r of (x, r1) \<Rightarrow>
        awaitS (platform x) r1 (\<lambda>k.
          (case generateKeyId P r1 of (kid, r2) \<Rightarrow> (Inr (k, kid), r2))))"

definition exportSymmetricKey :: "('k, 'j, 'r, 'e) provider \<Rightarrow> 'k \<Rightarrow> 'e error + bytes" where
  "exportSymmetricKey P k = platform (exportKey_raw P k)"


definition importPublicKey :: "('k, 'j, 'r, 'e) provider \<Rightarrow> 'j \<Rightarrow> 'e error + 'k" where
  "importPublicKey P publicKeyJwk = platform (importKey_jwk P Encrypt publicKeyJwk)"


section \<open>Direct messages (encryption, src/unnamed/part_010)\<close>



definition decryptMessage ::
  "('k, 'j, 'r, 'e) provider \<Rightarrow> EncryptedMessage \<Rightarrow> 'j \<Rightarrow> 'e error + string" where
  "decryptMessage P encryptedPayload privateKeyJwk =
     await (platform (importKey_jwk P Decrypt privateKeyJwk)) (\<lambda>privateKey.
     (let encryptedKeyBytes = base64ToArrayBuffer (EncryptedMessage.key encryptedPayload) in
     await (platform (decrypt_rsa_oaep P privateKey encryptedKeyBytes)) (\<lambda>symmetricKeyBytes.
     await (platform (importKey_raw_aes P symmetricKeyBytes)) (\<lambda>symmetricKey.
     (let ivBytes = base64ToArrayBuffer (EncryptedMessage.iv encryptedPayload);
          encryptedData = base64ToArrayBuffer (EncryptedMessage.data encryptedPayload) in
     await (platform (decrypt_aes_gcm P symmetricKey ivBytes encryptedData)) (\<lambda>decryptedBytes.
       Inr (textDecode P decryptedBytes)))))))"


section \<open>Group keys and group messages (groupKeys, src/unnamed/part_009)\<close>

text \<open>\<open>memberPublicKeys\<close> is a \<open>Record<string, ParticipantKey>\<close>; the loop runs over
  \<open>Object.entries\<close>, here the list of its entries. \<open>encryptedKeys\<close> starts empty and
  gets one assignment \<open>encryptedKeys[userId] = ...\<close> per entry.\<close>

fun encryptForMembers ::
  "('k, 'j, 'r, 'e) provider \<Rightarrow> bytes \<Rightarrow> (string \<times> 'j ParticipantKey) list \<Rightarrow>
   (string \<rightharpoonup> string) \<Rightarrow> 'r \<Rightarrow> ('e error + (string \<rightharpoonup> string)) \<times> 'r" where
  "encryptForMembers P rawKeyBytes [] encKeys r = (Inr encKeys, r)"
| "encryptForMembers P rawKeyBytes ((userId, participantKey) # rest) encKeys r =
     (case importPublicKey P (ParticipantKey.publicKey participantKey) of
        Inl e \<Rightarrow> (Inl e, r)
      | Inr memberKey \<Rightarrow>
          (case encrypt_rsa_oaep P memberKey rawKeyBytes r of
             (Inl e, r1) \<Rightarrow> (Inl (Platform e), r1)
           | (Inr encryptedKeyBytes, r1) \<Rightarrow>
               encryptForMembers P rawKeyBytes rest
                 (encKeys(userId \<mapsto> arrayBufferToBase64 encryptedKeyBytes)) r1))"

definition createGroupKeyBundle ::
  "('k, 'j, 'r, 'e) provider \<Rightarrow> nat \<Rightarrow> (string \<times> 'j ParticipantKey) list \<Rightarrow> string \<Rightarrow> 'r \<Rightarrow>
   ('e error + 'k GroupKeyResult) \<times> 'r" where
  "createGroupKeyBundle P now memberPublicKeys creatorId r =
     (case generateGroupSymmetricKey P r of (x, r1) \<Rightarrow>
     awaitS x r1 (\<lambda>(gk, kid).
     awaitS (exportSymmetricKey P gk) r1 (\<lambda>rawKeyBytes.
     (case encryptForMembers P rawKeyBytes memberPublicKeys Map.empty r1 of (y, r2) \<Rightarrow>
     awaitS y r2 (\<lambda>encryptedKeys.
       (Inr \<lparr>keyBundle = \<lparr>GroupKeyBundle.keyId = kid, encryptedKeys = encryptedKeys,
                            createdAt = now, createdBy = creatorId\<rparr>,
              groupKey = gk\<rparr>, r2))))))"


definition encryptGroupMessage ::
  "('k, 'j, 'r, 'e) provider \<Rightarrow> string \<Rightarrow> 'k \<Rightarrow> string \<Rightarrow> 'r \<Rightarrow>
   ('e error + GroupEncryptedMessage) \<times> 'r" where
  "encryptGroupMessage P plaintext gk kid r =
     (let dataBytes = textEncode P plaintext in
     (case getRandomValues P 12 r of (ivBytes, r1) \<Rightarrow>
     awaitS (platform (encrypt_aes_gcm P gk ivBytes dataBytes)) r1 (\<lambda>encryptedData.
       (Inr \<lparr>GroupEncryptedMessage.encrypted = True, version = ''tt-e1'',
              data = arrayBufferToBase64 encryptedData,
              iv = arrayBufferToBase64 ivBytes, keyId = kid\<rparr>, r1))))"

definition decryptGroupMessage ::
  "('k, 'j, 'r, 'e) provider \<Rightarrow> GroupEncryptedMessage \<Rightarrow> 'k \<Rightarrow> 'e error + string" where
  "decryptGroupMessage P encryptedPayload gk =
     (let ivBytes = base64ToArrayBuffer (GroupEncryptedMessage.iv encryptedPayload);
          encryptedData = base64ToArrayBuffer (GroupEncryptedMessage.data encryptedPayload) in
     await (platform (decrypt_aes_gcm P gk ivBytes encryptedData)) (\<lambda>decryptedBytes.
       Inr (textDecode P decryptedBytes)))"

definition rotateGroupKey ::
  "('k, 'j, 'r, 'e) provider \<Rightarrow> nat \<Rightarrow> (string \<times> 'j ParticipantKey) list \<Rightarrow> string \<Rightarrow> 'r \<Rightarrow>
   ('e error + 'k GroupKeyResult) \<times> 'r" where
  "rotateGroupKey P now remainingMemberKeys creatorId r =
     createGroupKeyBundle P now remainingMemberKeys creatorId r"

section \<open>Password-protected key backup (encryption, src/unnamed/part_010)\<close>

definition deriveKeyFromPassword ::
  "('k, 'j, 'r, 'e) provider \<Rightarrow> string \<Rightarrow> bytes \<Rightarrow> nat \<Rightarrow> 'e error + 'k" where
  "deriveKeyFromPassword P password saltBytes iters =
     await (platform (importKey_raw_pbkdf2 P (textEncode P password))) (\<lambda>passwordKey.
       platform (deriveKey_pbkdf2 P passwordKey saltBytes iters))"

text \<open>\<open>privateKeys\<close> is a \<open>Record<string, JsonWebKey>\<close>, the list of its entries. \<open>now\<close>
  is the clock read by \<open>new Date()\<close>.\<close>

definition exportPrivateKeys ::
  "('k, 'j, 'r, 'e) provider \<Rightarrow> nat \<Rightarrow> (string \<times> 'j) list \<Rightarrow> string \<Rightarrow> 'r \<Rightarrow>
   ('e error + EncryptedKeyBundle) \<times> 'r" where
  "exportPrivateKeys P now privateKeys password r =
     (if password = [] \<or> length password < 8 then
        (Inl (Error ''Password must be at least 8 characters''), r)
      else
        (case getRandomValues P 32 r of (saltBytes, r1) \<Rightarrow>
        (case getRandomValues P 12 r1 of (ivBytes, r2) \<Rightarrow>
        (let iters = 100000 in
        awaitS (deriveKeyFromPassword P password saltBytes iters) r2 (\<lambda>encryptionKey.
        (let keysJson = json_stringify P privateKeys;
             keysData = textEncode P keysJson in
        awaitS (platform (encrypt_aes_gcm P encryptionKey ivBytes keysData)) r2 (\<lambda>encryptedData.
          (Inr \<lparr>EncryptedKeyBundle.version = ''1.0'', algorithm = ''PBKDF2-AES-GCM-256'',
                 iterations = iters, salt = arrayBufferToBase64 saltBytes,
                 iv = arrayBufferToBase64 ivBytes,
                 ciphertext = arrayBufferToBase64 encryptedData,
                 exportedAt = toISOString P now\<rparr>, r2))))))))"

text \<open>The \<open>try\<close> block of \<open>importPrivateKeys\<close>: whatever is thrown inside (by the AEAD
  decryption or by \<open>JSON.parse\<close>) is replaced by one \<open>Error\<close>.\<close>

definition importPrivateKeys ::
  "('k, 'j, 'r, 'e) provider \<Rightarrow> EncryptedKeyBundle \<Rightarrow> string \<Rightarrow> 'e error + (string \<times> 'j) list" where
  "importPrivateKeys P encryptedBundle password =
     (if ciphertext encryptedBundle = [] then Inl (Error ''Invalid key bundle format'')
      else if password = [] then Inl (Error ''Password is required'')
      else if EncryptedKeyBundle.version encryptedBundle \<noteq> ''1.0'' then
        Inl (Error ''Unsupported key bundle version'')
      else
        (let saltBytes = base64ToArrayBuffer (salt encryptedBundle);
             ivBytes = base64ToArrayBuffer (EncryptedKeyBundle.iv encryptedBundle);
             cipherBytes = base64ToArrayBuffer (ciphertext encryptedBundle);
             iters = (if iterations encryptedBundle = 0 then 100000
                      else iterations encryptedBundle) in
         await (deriveKeyFromPassword P password saltBytes iters) (\<lambda>decryptionKey.
           (case decrypt_aes_gcm P decryptionKey ivBytes cipherBytes of
              Inl e \<Rightarrow> Inl (Error ''Invalid password or corrupted key bundle'')
            | Inr decryptedData \<Rightarrow>
                (let keysJson = textDecode P decryptedData in
                 (case json_parse P keysJson of
                    Inl e \<Rightarrow> Inl (Error ''Invalid password or corrupted key bundle'')
                  | Inr keys \<Rightarrow> Inr keys))))))"

section \<open>Disappearing messages (disappearingMessageService, src/unnamed/part_001)\<close>

text \<open>
  Of a \<open>Message\<close> the service reads \<open>id\<close> (here \<open>messageId\<close>), \<open>conversationId\<close> and
  \<open>expiresAt\<close> only. Timestamps are milliseconds since the epoch, natural numbers;
  \<open>expiresAt\<close> is \<open>number | null\<close>. The code tests \<open>message.expiresAt\<close> for
  truthiness (\<open>truthy\<close>), so \<open>null\<close> and \<open>0\<close> alike count as no expiry.

  The module state is the map \<open>activeTimers\<close> from message id to timer handle. The host's
  timers are part of the state too: \<open>setTimeout\<close> adds a pending task and returns a new
  handle (an object or a positive number, always truthy), \<open>clearTimeout\<close> removes the
  task. A callback is a token of type \<open>'c\<close>; calling it appends the token to \<open>invoked\<close>.
  \<open>Date.now()\<close> is the argument \<open>now\<close> of each operation: the clock is read once per
  call and does not advance while one call runs.
\<close>

record Message =
  messageId :: string
  conversationId :: string
  expiresAt :: "nat option"

record 'c timer_task =
  handle :: nat
  delay :: nat
  forId :: string
  callback :: 'c

record 'c scheduler =
  activeTimers :: "string \<rightharpoonup> nat"
  pending :: "'c timer_task list"
  nextHandle :: nat
  invoked :: "'c list"

definition truthy :: "nat option \<Rightarrow> bool" where
  "truthy v = (case v of None \<Rightarrow> False | Some n \<Rightarrow> n \<noteq> 0)"

definition startMessageTimer :: "nat \<Rightarrow> Message \<Rightarrow> 'c \<Rightarrow> 'c scheduler \<Rightarrow> 'c scheduler" where
  "startMessageTimer now message onExpire s =
     (if \<not> truthy (expiresAt message) \<or> activeTimers s (messageId message) \<noteq> None then s
      else
        (let msUntilExpiry = int (the (expiresAt message)) - int now in
         if msUntilExpiry \<le> 0 then s\<lparr>invoked := invoked s @ [onExpire]\<rparr>
         else
           (let timer = nextHandle s in
            s\<lparr>pending := pending s @
                  [\<lparr>handle = timer, delay = nat msUntilExpiry,
                    forId = messageId message, callback = onExpire\<rparr>],
              nextHandle := Suc timer,
              activeTimers := (activeTimers s)(messageId message \<mapsto> timer)\<rparr>)))"

text \<open>A pending timer fires: the closure given to \<open>setTimeout\<close> calls \<open>onExpire\<close> and
  deletes the entry of its message.\<close>

definition fireTimer :: "nat \<Rightarrow> 'c scheduler \<Rightarrow> 'c scheduler" where
  "fireTimer h s =
     (case find (\<lambda>t. handle t = h) (pending s) of
        None \<Rightarrow> s
      | Some t \<Rightarrow>
          s\<lparr>pending := filter (\<lambda>t. handle t \<noteq> h) (pending s),
            invoked := invoked s @ [callback t],
            activeTimers := (activeTimers s)(forId t := None)\<rparr>)"

definition cancelMessageTimer :: "string \<Rightarrow> 'c scheduler \<Rightarrow> 'c scheduler" where
  "cancelMessageTimer mid s =
     (case activeTimers s mid of
        None \<Rightarrow> s
      | Some timer \<Rightarrow>
          s\<lparr>pending := filter (\<lambda>t. handle t \<noteq> timer) (pending s),
            activeTimers := (activeTimers s)(mid := None)\<rparr>)"

definition getActiveTimerCount :: "'c scheduler \<Rightarrow> nat" where
  "getActiveTimerCount s = card (dom (activeTimers s))"


text \<open>
  \<open>deleteMessage\<close> belongs to the message service and ends in the remote store. Its
  outcome is a parameter: \<open>del c m\<close> is \<open>None\<close> when the promise is fulfilled and
  \<open>Some err\<close> when it is rejected with \<open>err\<close>. The effects of \<open>cleanupExpiredMessages\<close>
  are the deletions it requested and the lines its \<open>catch\<close> handler wrote with
  \<open>console.error\<close>.
\<close>

record 'x sink_effects =
  requested :: "(string \<times> string) list"
  logged :: "(string \<times> 'x) list"

definition deleteMessage_catch ::
  "(string \<Rightarrow> string \<Rightarrow> 'x option) \<Rightarrow> string \<Rightarrow> string \<Rightarrow> 'x sink_effects \<Rightarrow> 'x sink_effects" where
  "deleteMessage_catch del conv mid w =
     (case del conv mid of
        None \<Rightarrow> w\<lparr>requested := requested w @ [(conv, mid)]\<rparr>
      | Some err \<Rightarrow>
          w\<lparr>requested := requested w @ [(conv, mid)],
            logged := logged w @ [(''Failed to delete expired message:'', err)]\<rparr>)"

fun cleanupExpiredMessages_loop ::
  "(string \<Rightarrow> string \<Rightarrow> 'x option) \<Rightarrow> nat \<Rightarrow> string \<Rightarrow> Message list \<Rightarrow> Message list \<Rightarrow>
   'x sink_effects \<Rightarrow> Message list \<times> 'x sink_effects" where
  "cleanupExpiredMessages_loop del now conv [] validMessages w = (validMessages, w)"
| "cleanupExpiredMessages_loop del now conv (message # rest) validMessages w =
     (if truthy (expiresAt message) \<and> the (expiresAt message) \<le> now then
        cleanupExpiredMessages_loop del now conv rest validMessages
          (deleteMessage_catch del conv (messageId message) w)
      else
        cleanupExpiredMessages_loop del now conv rest (validMessages @ [message]) w)"

definition cleanupExpiredMessages ::
  "(string \<Rightarrow> string \<Rightarrow> 'x option) \<Rightarrow> nat \<Rightarrow> Message list \<Rightarrow> string \<Rightarrow> 'x sink_effects \<Rightarrow>
   Message list \<times> 'x sink_effects" where
  "cleanupExpiredMessages del now messages conv w =
     cleanupExpiredMessages_loop del now conv messages [] w"


section \<open>What is assumed of the platform\<close>

text \<open>
  The functional laws of the primitives, each a predicate on the platform. A key is a
  working AES-GCM key when, under every nonce, encryption succeeds with a non-empty
  ciphertext (the authentication tag is part of it) that the same key decrypts to the
  plaintext.
\<close>

definition aes_key_ok :: "('k, 'j, 'r, 'e) provider \<Rightarrow> 'k \<Rightarrow> bool" where
  "aes_key_ok P k \<longleftrightarrow>
     (\<forall>nonce m. \<exists>c. encrypt_aes_gcm P k nonce m = Inr c \<and> c \<noteq> [] \<and>
                     decrypt_aes_gcm P k nonce c = Inr m)"

text \<open>Generating an AES-256 key succeeds and gives a working key whose raw export has 32
  bytes and imports back as the same key.\<close>

definition aes_gcm_correct :: "('k, 'j, 'r, 'e) provider \<Rightarrow> bool" where
  "aes_gcm_correct P \<longleftrightarrow>
     (\<forall>r. \<exists>k r'. generateKey_aes P r = (Inr k, r') \<and> aes_key_ok P k \<and>
        (\<exists>raw. exportKey_raw P k = Inr raw \<and> length raw = 32 \<and>
               importKey_raw_aes P raw = Inr k))"

text \<open>Two JWKs are a matching RSA-OAEP pair when the first imports for encryption, the
  second for decryption, and whatever the first encrypts (up to the 190 bytes that
  RSA-2048 with OAEP and SHA-256 takes) the second decrypts.\<close>

definition rsa_pair :: "('k, 'j, 'r, 'e) provider \<Rightarrow> 'j \<Rightarrow> 'j \<Rightarrow> bool" where
  "rsa_pair P jpub jpriv \<longleftrightarrow>
     (\<exists>pk sk. importKey_jwk P Encrypt jpub = Inr pk \<and> importKey_jwk P Decrypt jpriv = Inr sk \<and>
        (\<forall>m r. length m \<le> 190 \<longrightarrow>
           (\<exists>c r'. encrypt_rsa_oaep P pk m r = (Inr c, r') \<and> decrypt_rsa_oaep P sk c = Inr m)))"


text \<open>PBKDF2 derives a working AES-GCM key from every password, salt and iteration
  count.\<close>

definition pbkdf2_correct :: "('k, 'j, 'r, 'e) provider \<Rightarrow> bool" where
  "pbkdf2_correct P \<longleftrightarrow>
     (\<forall>pw saltBytes iters. \<exists>pk dk. importKey_raw_pbkdf2 P pw = Inr pk \<and>
        deriveKey_pbkdf2 P pk saltBytes iters = Inr dk \<and> aes_key_ok P dk)"

text \<open>A key map survives serialisation when \<open>JSON.parse\<close> gives it back from the decoded
  encoding of its \<open>JSON.stringify\<close> text.\<close>

definition json_roundtrip :: "('k, 'j, 'r, 'e) provider \<Rightarrow> (string \<times> 'j) list \<Rightarrow> bool" where
  "json_roundtrip P K \<longleftrightarrow>
     json_parse P (textDecode P (textEncode P (json_stringify P K))) = Inr K"

text \<open>
  Two idealisations of what a cryptographically strong generator and an authenticated
  cipher give with overwhelming probability, in the symbolic reading used for
  protocols: the key generator never returns one key from two different entropy
  states, and a ciphertext is rejected under every key other than the one that
  produced it.
\<close>

definition keygen_collision_free :: "('k, 'j, 'r, 'e) provider \<Rightarrow> bool" where
  "keygen_collision_free P \<longleftrightarrow>
     (\<forall>r r' k s s'. generateKey_aes P r = (Inr k, s) \<longrightarrow>
        generateKey_aes P r' = (Inr k, s') \<longrightarrow> r = r')"

definition aead_key_binding :: "('k, 'j, 'r, 'e) provider \<Rightarrow> bool" where
  "aead_key_binding P \<longleftrightarrow>
     (\<forall>k k' nonce m c. encrypt_aes_gcm P k nonce m = Inr c \<longrightarrow> k' \<noteq> k \<longrightarrow>
        (\<exists>e. decrypt_aes_gcm P k' nonce c = Inl e))"

text \<open>The private JWK \<open>jpriv\<close> unwraps the base64 text \<open>w\<close> to the raw key bytes.\<close>

definition unwraps :: "('k, 'j, 'r, 'e) provider \<Rightarrow> 'j \<Rightarrow> string \<Rightarrow> bytes \<Rightarrow> bool" where
  "unwraps P jpriv w raw \<longleftrightarrow>
     (\<exists>sk. importKey_jwk P Decrypt jpriv = Inr sk \<and>
           decrypt_rsa_oaep P sk (base64ToArrayBuffer w) = Inr raw)"

section \<open>Auxiliary notions for the base64 proofs\<close>

text \<open>The four 6-bit groups of three bytes, the digit of a group, the three bytes of four
  groups, and the encoding of a byte list without and with its padding.\<close>

definition digit :: "int \<Rightarrow> char" where
  "digit n = chars ! nat n"

definition s1 :: "byte \<Rightarrow> int" where
  "s1 a = drop_bit 2 (uint a)"

definition s2 :: "byte \<Rightarrow> byte \<Rightarrow> int" where
  "s2 a b = push_bit 4 (uint a AND 3) OR drop_bit 4 (uint b)"

definition s3 :: "byte \<Rightarrow> byte \<Rightarrow> int" where
  "s3 b c = push_bit 2 (uint b AND 15) OR drop_bit 6 (uint c)"

definition s4 :: "byte \<Rightarrow> int" where
  "s4 c = uint c AND 63"

definition o1 :: "int \<Rightarrow> int \<Rightarrow> int" where
  "o1 e1 e2 = push_bit 2 e1 OR drop_bit 4 e2"

definition o2 :: "int \<Rightarrow> int \<Rightarrow> int" where
  "o2 e2 e3 = push_bit 4 (e2 AND 15) OR drop_bit 2 e3"

definition o3 :: "int \<Rightarrow> int \<Rightarrow> int" where
  "o3 e3 e4 = push_bit 6 (e3 AND 3) OR e4"

fun clean :: "bytes \<Rightarrow> string" where
  "clean [] = []"
| "clean [a] = [digit (s1 a), digit (s2 a 0)]"
| "clean [a, b] = [digit (s1 a), digit (s2 a b), digit (s3 b 0)]"
| "clean (a # b # c # r) =
     [digit (s1 a), digit (s2 a b), digit (s3 b c), digit (s4 c)] @ clean r"

fun padding :: "bytes \<Rightarrow> string" where
  "padding [] = []"
| "padding [a] = ''==''"
| "padding [a, b] = ''=''"
| "padding (a # b # c # r) = padding r"

section \<open>A small platform for concrete runs\<close>

text \<open>
  A platform simple enough to run by hand. Keys carry their material; an RSA key pair
  is a pair of equal tags, and RSA encryption puts the tag in front of the message; the
  AES-GCM ciphertext is the plaintext followed by a 32-byte tag, the key with the sums
  of the nonce and of the plaintext added to every byte; the entropy source is a
  counter. Its errors carry the names Web Crypto gives them: \<open>OperationError\<close> when
  an encryption or decryption fails, \<open>DataError\<close> when key data cannot be imported,
  \<open>InvalidAccessError\<close> when a key is of the wrong kind for the operation.
\<close>

datatype toy_key = RsaPublic byte | RsaPrivate byte | AesKey bytes | Pbkdf2Key bytes

datatype dom_error =
  OperationError | DataError | InvalidAccessError | NotSupportedError | SyntaxError

definition toy_importKey_jwk :: "key_usage \<Rightarrow> toy_key \<Rightarrow> dom_error + toy_key" where
  "toy_importKey_jwk u j =
     (case (u, j) of
        (Encrypt, RsaPublic n) \<Rightarrow> Inr (RsaPublic n)
      | (Decrypt, RsaPrivate n) \<Rightarrow> Inr (RsaPrivate n)
      | _ \<Rightarrow> Inl DataError)"

definition toy_exportKey_raw :: "toy_key \<Rightarrow> dom_error + bytes" where
  "toy_exportKey_raw k = (case k of AesKey bs \<Rightarrow> Inr bs | _ \<Rightarrow> Inl NotSupportedError)"

definition toy_importKey_raw_aes :: "bytes \<Rightarrow> dom_error + toy_key" where
  "toy_importKey_raw_aes bs = (if length bs = 32 then Inr (AesKey bs) else Inl DataError)"

definition toy_deriveKey :: "toy_key \<Rightarrow> bytes \<Rightarrow> nat \<Rightarrow> dom_error + toy_key" where
  "toy_deriveKey k saltBytes iters =
     (case k of
        Pbkdf2Key pw \<Rightarrow> Inr (AesKey (take 32 (pw @ saltBytes @ replicate 32 0)))
      | _ \<Rightarrow> Inl InvalidAccessError)"

definition toy_tag :: "bytes \<Rightarrow> bytes \<Rightarrow> bytes \<Rightarrow> bytes" where
  "toy_tag bs nonce m = map (\<lambda>b. b + sum_list nonce + sum_list m) bs"

definition toy_encrypt_aes :: "toy_key \<Rightarrow> bytes \<Rightarrow> bytes \<Rightarrow> dom_error + bytes" where
  "toy_encrypt_aes k nonce m =
     (case k of
        AesKey bs \<Rightarrow> (if length bs = 32 then Inr (m @ toy_tag bs nonce m) else Inl OperationError)
      | _ \<Rightarrow> Inl InvalidAccessError)"

definition toy_decrypt_aes :: "toy_key \<Rightarrow> bytes \<Rightarrow> bytes \<Rightarrow> dom_error + bytes" where
  "toy_decrypt_aes k nonce c =
     (case k of
        AesKey bs \<Rightarrow>
          (if length bs = 32 \<and> 32 \<le> length c \<and>
              drop (length c - 32) c = toy_tag bs nonce (take (length c - 32) c)
           then Inr (take (length c - 32) c) else Inl OperationError)
      | _ \<Rightarrow> Inl InvalidAccessError)"

definition toy_encrypt_rsa :: "toy_key \<Rightarrow> bytes \<Rightarrow> byte \<Rightarrow> (dom_error + bytes) \<times> byte" where
  "toy_encrypt_rsa k m r =
     (case k of
        RsaPublic n \<Rightarrow> (if length m \<le> 190 then (Inr (n # m), r) else (Inl OperationError, r))
      | _ \<Rightarrow> (Inl InvalidAccessError, r))"

definition toy_decrypt_rsa :: "toy_key \<Rightarrow> bytes \<Rightarrow> dom_error + bytes" where
  "toy_decrypt_rsa k c =
     (case k of
        RsaPrivate n \<Rightarrow>
          (case c of
             [] \<Rightarrow> Inl OperationError
           | x # m \<Rightarrow> (if x = n then Inr m else Inl OperationError))
      | _ \<Rightarrow> Inl InvalidAccessError)"

text \<open>The key maps of this platform are written as \<open>name:Tb;\<close> per entry, with a tag
  character \<open>T\<close> for the kind of key and the character \<open>b\<close> of its byte.\<close>

definition toy_key_text :: "toy_key \<Rightarrow> string" where
  "toy_key_text k =
     (case k of
        RsaPublic n \<Rightarrow> [CHR ''P'', char_of (unat n)]
      | RsaPrivate n \<Rightarrow> [CHR ''S'', char_of (unat n)]
      | _ \<Rightarrow> ''??'')"

definition toy_key_of_text :: "char \<Rightarrow> char \<Rightarrow> toy_key option" where
  "toy_key_of_text t b =
     (if t = CHR ''P'' then Some (RsaPublic (of_nat (of_char b)))
      else if t = CHR ''S'' then Some (RsaPrivate (of_nat (of_char b)))
      else None)"

definition toy_json_stringify :: "(string \<times> toy_key) list \<Rightarrow> string" where
  "toy_json_stringify K = concat (map (\<lambda>(name, k). name @ '':'' @ toy_key_text k @ '';'') K)"

fun toy_json_entries :: "string \<Rightarrow> string \<Rightarrow> (string \<times> toy_key) list option" where
  "toy_json_entries acc [] = (if acc = [] then Some [] else None)"
| "toy_json_entries acc (c # cs) =
     (if c = CHR '':'' then
        (case cs of
           t # b # e # rest \<Rightarrow>
             (if e = CHR '';'' then
                (case toy_key_of_text t b of
                   None \<Rightarrow> None
                 | Some k \<Rightarrow>
                     (case toy_json_entries [] rest of
                        None \<Rightarrow> None
                      | Some es \<Rightarrow> Some ((rev acc, k) # es)))
              else None)
         | _ \<Rightarrow> None)
      else toy_json_entries (c # acc) cs)"

definition toy_json_parse :: "string \<Rightarrow> dom_error + (string \<times> toy_key) list" where
  "toy_json_parse s =
     (case toy_json_entries [] s of None \<Rightarrow> Inl SyntaxError | Some es \<Rightarrow> Inr es)"

definition toy :: "(toy_key, toy_key, byte, dom_error) provider" where
  "toy =
     \<lparr>generateKey_aes = (\<lambda>r. (Inr (AesKey (replicate 32 r)), r + 1)),
      generateKey_rsa = (\<lambda>r. (Inr (RsaPublic r, RsaPrivate r), r + 1)),
      importKey_jwk = toy_importKey_jwk,
      exportKey_jwk = Inr,
      importKey_raw_aes = toy_importKey_raw_aes,
      exportKey_raw = toy_exportKey_raw,
      importKey_raw_pbkdf2 = (\<lambda>pw. Inr (Pbkdf2Key pw)),
      deriveKey_pbkdf2 = toy_deriveKey,
      encrypt_aes_gcm = toy_encrypt_aes,
      decrypt_aes_gcm = toy_decrypt_aes,
      encrypt_rsa_oaep = toy_encrypt_rsa,
      decrypt_rsa_oaep = toy_decrypt_rsa,
      getRandomValues = (\<lambda>n r. (replicate n r, r + 1)),
      textEncode = map (\<lambda>c. of_nat (of_char c)),
      textDecode = map (\<lambda>b. char_of (unat b)),
      json_stringify = toy_json_stringify,
      json_parse = toy_json_parse,
      toISOString = (\<lambda>t. ''1970-01-01T00:00:00.000Z'')\<rparr>"

text \<open>Two members with their key pairs, and two payloads that carry a version other
  than \<open>tt-e1\<close>: a direct one for the private key \<open>RsaPrivate 0\<close> and a group one
  for the key \<open>AesKey (replicate 32 1)\<close>, both holding the text \<open>hi\<close>.\<close>

definition toy_members :: "(string \<times> toy_key ParticipantKey) list" where
  "toy_members =
     [(''alice'', \<lparr>ParticipantKey.publicKey = RsaPublic 1, keyId = ''a1''\<rparr>),
      (''bob'', \<lparr>ParticipantKey.publicKey = RsaPublic 2, keyId = ''b1''\<rparr>)]"

definition toy_private :: "string \<Rightarrow> toy_key" where
  "toy_private u = (if u = ''alice'' then RsaPrivate 1 else RsaPrivate 2)"

definition payload_v0 :: EncryptedMessage where
  "payload_v0 =
     \<lparr>EncryptedMessage.encrypted = True, version = ''tt-e0'',
      data = ''aGn39/f39/f39/f39/f39/f39/f39/f39/f39/f39/f39w=='',
      key = ''AAICAgICAgICAgICAgICAgICAgICAgICAgICAgICAgIC'',
      iv = ''AwMDAwMDAwMDAwMD''\<rparr>"

definition group_payload_v0 :: GroupEncryptedMessage where
  "group_payload_v0 =
     \<lparr>GroupEncryptedMessage.encrypted = True, version = ''tt-e0'',
      data = ''aGnq6urq6urq6urq6urq6urq6urq6urq6urq6urq6urq6g=='',
      iv = ''AgICAgICAgICAgIC'', keyId = ''0101010101010101''\<rparr>"




text \<open>A scheduler with no timer, three messages (one expired at 500, one with
  \<open>expiresAt = 0\<close>, one expiring at 2000) and a sink that has done nothing yet.\<close>

definition scheduler0 :: "string scheduler" where
  "scheduler0 = \<lparr>activeTimers = Map.empty, pending = [], nextHandle = 1, invoked = []\<rparr>"

definition message_past :: Message where
  "message_past = \<lparr>messageId = ''m1'', conversationId = ''c1'', expiresAt = Some 500\<rparr>"

definition message_zero :: Message where
  "message_zero = \<lparr>messageId = ''m0'', conversationId = ''c1'', expiresAt = Some 0\<rparr>"

definition message_future :: Message where
  "message_future = \<lparr>messageId = ''m2'', conversationId = ''c1'', expiresAt = Some 2000\<rparr>"

definition effects0 :: "string sink_effects" where
  "effects0 = \<lparr>requested = [], logged = []\<rparr>"

section \<open>Base64: decoding inverts encoding\<close>

declare arrayBufferToBase64_loop.simps [simp del]
declare base64ToArrayBuffer_loop.simps [simp del]

lemma chars_table:
  "list_all (\<lambda>n. indexOf chars [chars ! n] = int n \<and> chars ! n \<noteq> CHR ''='') [0..<64]"
  by code_simp

lemma length_chars: "length chars = 64"
  by (simp add: chars_def)

lemma digit_props:
  assumes "0 \<le> n" "n < 64"
  shows "indexOf chars [digit n] = n" "digit n \<noteq> CHR ''=''" "charAt chars n = [digit n]"
proof -
  have "nat n \<in> set [0..<64]" using assms by auto
  with chars_table
  have "indexOf chars [chars ! nat n] = int (nat n) \<and> chars ! nat n \<noteq> CHR ''=''"
    unfolding list_all_iff by blast
  then show "indexOf chars [digit n] = n" "digit n \<noteq> CHR ''=''"
    using assms by (simp_all add: digit_def)
  show "charAt chars n = [digit n]"
    using assms by (simp add: charAt_def digit_def length_chars)
qed

lemma and_mask_int:
  "(x::int) AND 3 = take_bit 2 x" "(x::int) AND 15 = take_bit 4 x" "(x::int) AND 63 = take_bit 6 x"
  by (simp_all add: take_bit_eq_mask mask_eq_exp_minus_1)

lemma shift_back:
  "2 \<le> n \<Longrightarrow> Suc (Suc (n - 2)) = n" "4 \<le> n \<Longrightarrow> 4 + (n - 4) = n" "6 \<le> n \<Longrightarrow> 6 + (n - 6) = n"
  by simp_all

lemma six_bits: "take_bit 6 (x::int) = x \<Longrightarrow> 0 \<le> x \<and> x < 64"
  using take_bit_nonnegative[of 6 x] take_bit_int_less_exp[of 6 x] by simp

lemma s1_range: "0 \<le> s1 a \<and> s1 a < 64"
  unfolding s1_def
  by (rule six_bits, rule bit_eqI) (auto simp: bit_simps dest: bit_imp_le_length)

lemma s2_range: "0 \<le> s2 a b \<and> s2 a b < 64"
  unfolding s2_def and_mask_int
  by (rule six_bits, rule bit_eqI) (auto simp: bit_simps dest: bit_imp_le_length)

lemma s3_range: "0 \<le> s3 b c \<and> s3 b c < 64"
  unfolding s3_def and_mask_int
  by (rule six_bits, rule bit_eqI) (auto simp: bit_simps dest: bit_imp_le_length)

lemma s4_range: "0 \<le> s4 c \<and> s4 c < 64"
  unfolding s4_def and_mask_int
  by (rule six_bits, rule bit_eqI) (auto simp: bit_simps dest: bit_imp_le_length)

text \<open>The bit arithmetic of the decoder gives back the three bytes of four groups.\<close>

lemma octet1: "word_of_int (o1 (s1 a) (s2 a b)) = a"
  unfolding o1_def s1_def s2_def and_mask_int
  apply (rule bit_word_eqI)
  subgoal for n
    by (cases "2 \<le> n") (auto simp: bit_simps shift_back dest: bit_imp_le_length)
  done

lemma octet2: "word_of_int (o2 (s2 a b) (s3 b c)) = b"
  unfolding o2_def s2_def s3_def and_mask_int
  apply (rule bit_word_eqI)
  subgoal for n
    by (cases "4 \<le> n") (auto simp: bit_simps shift_back dest: bit_imp_le_length)
  done

lemma octet3: "word_of_int (o3 (s3 b c) (s4 c)) = c"
  unfolding o3_def s3_def s4_def and_mask_int
  apply (rule bit_word_eqI)
  subgoal for n
    by (cases "6 \<le> n") (auto simp: bit_simps shift_back dest: bit_imp_le_length)
  done

lemma charAt_digit:
  "charAt chars (s1 a) = [digit (s1 a)]" "charAt chars (s2 a b) = [digit (s2 a b)]"
  "charAt chars (s3 b c) = [digit (s3 b c)]" "charAt chars (s4 c) = [digit (s4 c)]"
  using s1_range s2_range s3_range s4_range by (simp_all add: digit_props)

lemma digit_not_pad:
  "digit (s1 a) \<noteq> CHR ''=''" "digit (s2 a b) \<noteq> CHR ''=''"
  "digit (s3 b c) \<noteq> CHR ''=''" "digit (s4 c) \<noteq> CHR ''=''"
  using s1_range s2_range s3_range s4_range by (simp_all add: digit_props)

lemma indexOf_digit:
  "indexOf chars [digit (s1 a)] = s1 a" "indexOf chars [digit (s2 a b)] = s2 a b"
  "indexOf chars [digit (s3 b c)] = s3 b c" "indexOf chars [digit (s4 c)] = s4 c"
  using s1_range s2_range s3_range s4_range by (simp_all add: digit_props)

lemma sextet_not_minus1: "s3 b c \<noteq> - 1" "s4 c \<noteq> - 1"
  using s3_range[of b c] s4_range[of c] by auto

text \<open>The encoder, one iteration at a time, and what it has produced at the end.\<close>

lemma encode_exit: "length bs \<le> i \<Longrightarrow> arrayBufferToBase64_loop bs i res = res"
  by (subst arrayBufferToBase64_loop.simps) simp

lemma encode_iter:
  "i < length bs \<Longrightarrow> arrayBufferToBase64_loop bs i res =
     arrayBufferToBase64_loop bs (i + 3)
       (if length bs \<le> i + 1 then
          res @ charAt chars (s1 (bs ! i)) @ charAt chars (s2 (bs ! i) 0) @ ''==''
        else if length bs \<le> i + 2 then
          res @ charAt chars (s1 (bs ! i)) @ charAt chars (s2 (bs ! i) (bs ! (i + 1)))
            @ charAt chars (s3 (bs ! (i + 1)) 0) @ ''=''
        else
          res @ charAt chars (s1 (bs ! i)) @ charAt chars (s2 (bs ! i) (bs ! (i + 1)))
            @ charAt chars (s3 (bs ! (i + 1)) (bs ! (i + 2))) @ charAt chars (s4 (bs ! (i + 2))))"
  by (subst arrayBufferToBase64_loop.simps)
     (simp add: Let_def elemAt_def toInt32_def isNaN_def s1_def s2_def s3_def s4_def)

lemma encode_loop_clean:
  "arrayBufferToBase64_loop bs i res = res @ clean (drop i bs) @ padding (drop i bs)"
proof (induction "length bs - i" arbitrary: i res rule: less_induct)
  case less
  show ?case
  proof (cases "i < length bs")
    case False
    then show ?thesis by (simp add: encode_exit)
  next
    case True
    note lt = this
    have d0: "drop i bs = bs ! i # drop (i + 1) bs"
      using lt by (simp add: Cons_nth_drop_Suc)
    consider (one) "i + 1 = length bs" | (two) "i + 2 = length bs" | (more) "i + 2 < length bs"
      using True by linarith
    then show ?thesis
    proof cases
      case one
      then show ?thesis
        using lt d0 by (simp add: encode_iter encode_exit charAt_digit)
    next
      case two
      then have "drop (i + 1) bs = bs ! (i + 1) # drop (i + 2) bs"
        using Cons_nth_drop_Suc[of "i + 1" bs] by simp
      with two have d1: "drop (i + 1) bs = [bs ! (i + 1)]" by simp
      show ?thesis
        using lt two d0 d1 by (simp add: encode_iter encode_exit charAt_digit)
    next
      case more
      then have "drop (i + 1) bs = bs ! (i + 1) # drop (i + 2) bs"
        using Cons_nth_drop_Suc[of "i + 1" bs] by simp
      moreover have "drop (i + 2) bs = bs ! (i + 2) # drop (i + 3) bs"
        using more Cons_nth_drop_Suc[of "i + 2" bs] by (simp add: numeral_3_eq_3 numeral_2_eq_2)
      ultimately have d1: "drop (i + 1) bs = bs ! (i + 1) # bs ! (i + 2) # drop (i + 3) bs"
        by simp
      have "length bs - (i + 3) < length bs - i" using lt by simp
      from less[OF this] show ?thesis
        using lt more d0 d1 by (simp add: encode_iter charAt_digit)
    qed
  qed
qed

lemma arrayBufferToBase64_clean: "arrayBufferToBase64 bs = clean bs @ padding bs"
  by (simp add: arrayBufferToBase64_def encode_loop_clean)

text \<open>Stripping the padding leaves the digits, and the array the decoder allocates has
  the length of the encoded byte list.\<close>

lemma clean_no_pad: "c \<in> set (clean bs) \<Longrightarrow> c \<noteq> CHR ''=''"
  by (induction bs rule: clean.induct) (auto simp: digit_not_pad[THEN not_sym])

lemma padding_all_pad: "c \<in> set (padding bs) \<Longrightarrow> c = CHR ''=''"
  by (induction bs rule: padding.induct) auto

lemma stripPadding_clean: "stripPadding (clean bs @ padding bs) = clean bs"
proof -
  have 1: "dropWhile (\<lambda>c. c = CHR ''='') (rev (padding bs) @ rev (clean bs))
             = dropWhile (\<lambda>c. c = CHR ''='') (rev (clean bs))"
    by (rule dropWhile_append2) (simp add: padding_all_pad)
  have 2: "dropWhile (\<lambda>c. c = CHR ''='') (rev (clean bs)) = rev (clean bs)"
  proof (cases "clean bs = []")
    case True
    then show ?thesis by simp
  next
    case False
    then have "last (clean bs) \<in> set (clean bs)" by simp
    then have "last (clean bs) \<noteq> CHR ''=''"
      by (rule clean_no_pad)
    then have "hd (rev (clean bs)) \<noteq> CHR ''=''"
      by (simp add: hd_rev)
    then show ?thesis by (simp add: dropWhile_eq_self_iff)
  qed
  show ?thesis by (simp add: stripPadding_def 1 2)
qed

lemma length_clean: "length (clean bs) * 3 div 4 = length bs"
  by (induction bs rule: clean.induct) simp_all

lemma arrayBufferToBase64_empty_iff: "arrayBufferToBase64 bs = [] \<longleftrightarrow> bs = []"
  by (cases bs rule: clean.cases) (simp_all add: arrayBufferToBase64_clean)

text \<open>The decoder, one iteration at a time, run over the digits of a byte list.\<close>

lemma decode_exit: "length s \<le> i \<Longrightarrow> base64ToArrayBuffer_loop s i p bs = bs"
  by (subst base64ToArrayBuffer_loop.simps) simp

lemma decode_iter:
  "i < length s \<Longrightarrow> base64ToArrayBuffer_loop s i p bs =
     (let enc1 = indexOf chars (charAt s (int i));
          enc2 = indexOf chars (charAt s (int i + 1));
          enc3 = indexOf chars (charAt s (int i + 2));
          enc4 = indexOf chars (charAt s (int i + 3));
          bs1 = store bs p (o1 enc1 enc2);
          bs2 = (if enc3 \<noteq> - 1 then store bs1 (p + 1) (o2 enc2 enc3) else bs1);
          p2 = (if enc3 \<noteq> - 1 then p + 2 else p + 1);
          bs3 = (if enc4 \<noteq> - 1 then store bs2 p2 (o3 enc3 enc4) else bs2);
          p3 = (if enc4 \<noteq> - 1 then p2 + 1 else p2)
      in base64ToArrayBuffer_loop s (i + 4) p3 bs3)"
  by (subst base64ToArrayBuffer_loop.simps) (simp add: Let_def o1_def o2_def o3_def)

lemma charAt_append:
  "charAt (pre @ xs) (int (length pre) + int k) = (if k < length xs then [xs ! k] else [])"
  by (simp add: charAt_def nth_append nat_add_distrib)

lemma charAt_append0:
  "charAt (pre @ xs) (int (length pre)) = (if 0 < length xs then [xs ! 0] else [])"
  using charAt_append[of pre xs 0] by simp

lemma charAt_append_num:
  "charAt (pre @ xs) (int (length pre) + 1) = (if 1 < length xs then [xs ! 1] else [])"
  "charAt (pre @ xs) (int (length pre) + 2) = (if 2 < length xs then [xs ! 2] else [])"
  "charAt (pre @ xs) (int (length pre) + 3) = (if 3 < length xs then [xs ! 3] else [])"
  using charAt_append[of pre xs 1] charAt_append[of pre xs 2] charAt_append[of pre xs 3]
  by simp_all

lemma indexOf_empty: "indexOf chars [] = 0"
  by (simp add: indexOf_def chars_def)

lemma store_here: "store (done @ z # zs) (length done) v = done @ word_of_int v # zs"
  by (simp add: store_def)

lemma store_here1:
  "store (done @ y # z # zs) (Suc (length done)) v = done @ y # word_of_int v # zs"
  by (simp add: store_def list_update_append)

lemma store_here2:
  "store (done @ x # y # z # zs) (Suc (Suc (length done))) v = done @ x # y # word_of_int v # zs"
  by (simp add: store_def list_update_append)

lemma store_beyond: "length bs \<le> p \<Longrightarrow> store bs p v = bs"
  by (simp add: store_def)

lemma decode_loop_clean:
  "length zs = length bs \<Longrightarrow>
     base64ToArrayBuffer_loop (pre @ clean bs) (length pre) (length done) (done @ zs) = done @ bs"
proof (induction bs arbitrary: pre "done" zs rule: clean.induct)
  case 1
  then show ?case by (simp add: decode_exit)
next
  case (2 a)
  then obtain z where zs: "zs = [z]" by (cases zs) auto
  show ?case
    by (simp add: decode_iter zs Let_def charAt_append0 charAt_append_num indexOf_digit
        indexOf_empty store_here store_beyond octet1 decode_exit)
next
  case (3 a b)
  then obtain z1 z2 where zs: "zs = [z1, z2]" by (cases zs; cases "tl zs") auto
  show ?case
    by (simp add: decode_iter zs Let_def charAt_append0 charAt_append_num indexOf_digit
        indexOf_empty store_here store_here1 store_beyond octet1 octet2 sextet_not_minus1
        decode_exit)
next
  case (4 a b c r)
  then obtain z1 z2 z3 zs' where zs: "zs = z1 # z2 # z3 # zs'" and len: "length zs' = length r"
    by (cases zs; cases "tl zs"; cases "tl (tl zs)") auto
  have ih: "base64ToArrayBuffer_loop
      ((pre @ [digit (s1 a), digit (s2 a b), digit (s3 b c), digit (s4 c)]) @ clean r)
      (length (pre @ [digit (s1 a), digit (s2 a b), digit (s3 b c), digit (s4 c)]))
      (length (done @ [a, b, c])) ((done @ [a, b, c]) @ zs') = (done @ [a, b, c]) @ r"
    by (rule 4(1)[OF len])
  have e: "Suc (Suc (Suc (Suc (length pre)))) = length pre + 4" by simp
  show ?case
    using ih
    by (simp add: decode_iter zs Let_def charAt_append0 charAt_append_num indexOf_digit
        sextet_not_minus1 store_here store_here1 store_here2 octet1 octet2 octet3 e)
qed

lemma base64_roundtrip: "base64ToArrayBuffer (arrayBufferToBase64 bs) = bs"
proof -
  have "base64ToArrayBuffer_loop ([] @ clean bs) (length ([]::string)) (length ([]::bytes))
          ([] @ replicate (length bs) 0) = [] @ bs"
    by (rule decode_loop_clean) simp
  then show ?thesis
    by (simp add: base64ToArrayBuffer_def arrayBufferToBase64_clean stripPadding_clean
        length_clean Let_def)
qed

section \<open>Direct messages, group keys and backups\<close>

lemma platform_simps [simp]:
  "platform (Inr v) = Inr v" "platform (Inl e) = Inl (Platform e)"
  by (simp_all add: platform_def)

lemma await_simps [simp]:
  "await (Inr v) f = f v" "await (Inl e) f = Inl e"
  by (simp_all add: await_def)

lemma awaitS_simps [simp]:
  "awaitS (Inr v) r f = f v" "awaitS (Inl e) r f = (Inl e, r)"
  by (simp_all add: awaitS_def)




lemma toy_fields [simp]:
  "generateKey_aes toy r = (Inr (AesKey (replicate 32 r)), r + 1)"
  "generateKey_rsa toy r = (Inr (RsaPublic r, RsaPrivate r), r + 1)"
  "importKey_jwk toy = toy_importKey_jwk"
  "exportKey_jwk toy = Inr"
  "importKey_raw_aes toy = toy_importKey_raw_aes"
  "exportKey_raw toy = toy_exportKey_raw"
  "importKey_raw_pbkdf2 toy pw = Inr (Pbkdf2Key pw)"
  "deriveKey_pbkdf2 toy = toy_deriveKey"
  "encrypt_aes_gcm toy = toy_encrypt_aes"
  "decrypt_aes_gcm toy = toy_decrypt_aes"
  "encrypt_rsa_oaep toy = toy_encrypt_rsa"
  "decrypt_rsa_oaep toy = toy_decrypt_rsa"
  "getRandomValues toy n r = (replicate n r, r + 1)"
  "textEncode toy = map (\<lambda>c. of_nat (of_char c))"
  "textDecode toy = map (\<lambda>b. char_of (unat b))"
  "json_stringify toy = toy_json_stringify"
  "json_parse toy = toy_json_parse"
  by (simp_all add: toy_def)

lemma length_toy_tag [simp]: "length (toy_tag bs nonce m) = length bs"
  by (simp add: toy_tag_def)

lemma toy_tag_inj: "toy_tag bs nonce m = toy_tag bs' nonce m \<Longrightarrow> bs = bs'"
proof -
  have "inj (\<lambda>b::byte. b + sum_list nonce + sum_list m)"
    by (rule injI) simp
  then show "toy_tag bs nonce m = toy_tag bs' nonce m \<Longrightarrow> bs = bs'"
    unfolding toy_tag_def by (simp add: inj_map_eq_map)
qed

lemma toy_tag_nonempty: "length bs = 32 \<Longrightarrow> toy_tag bs nonce m \<noteq> []"
  by (auto simp: toy_tag_def)

lemma toy_aes_key_ok: "length bs = 32 \<Longrightarrow> aes_key_ok toy (AesKey bs)"
  by (simp add: aes_key_ok_def toy_encrypt_aes_def toy_decrypt_aes_def toy_tag_nonempty)

lemma toy_aes_gcm_correct: "aes_gcm_correct toy"
  by (simp add: aes_gcm_correct_def toy_aes_key_ok toy_exportKey_raw_def toy_importKey_raw_aes_def)

lemma toy_rsa_pair: "rsa_pair toy (RsaPublic n) (RsaPrivate n)"
  by (simp add: rsa_pair_def toy_importKey_jwk_def toy_encrypt_rsa_def toy_decrypt_rsa_def)


lemma toy_pbkdf2_correct: "pbkdf2_correct toy"
  by (simp add: pbkdf2_correct_def toy_deriveKey_def toy_aes_key_ok)






lemma encryptForMembers_ok:
  assumes "\<forall>(u, pk) \<in> set M. rsa_pair P (ParticipantKey.publicKey pk) (priv u)"
    and "length raw \<le> 190"
    and "\<forall>u w. acc u = Some w \<longrightarrow> unwraps P (priv u) w raw"
  shows "\<exists>enc r'. encryptForMembers P raw M acc r = (Inr enc, r') \<and>
           dom enc = dom acc \<union> fst ` set M \<and>
           (\<forall>u w. enc u = Some w \<longrightarrow> unwraps P (priv u) w raw)"
  using assms
proof (induction M arbitrary: acc r)
  case Nil
  then show ?case by simp
next
  case (Cons entry M)
  obtain u pk where entry: "entry = (u, pk)" by (cases entry)
  from Cons.prems(1) entry have "rsa_pair P (ParticipantKey.publicKey pk) (priv u)" by simp
  then obtain k sk where
    imp: "importKey_jwk P Encrypt (ParticipantKey.publicKey pk) = Inr k"
         "importKey_jwk P Decrypt (priv u) = Inr sk"
    and rsa: "\<And>m r. length m \<le> 190 \<Longrightarrow>
               \<exists>c r'. encrypt_rsa_oaep P k m r = (Inr c, r') \<and> decrypt_rsa_oaep P sk c = Inr m"
    unfolding rsa_pair_def by blast
  from rsa[OF Cons.prems(2), of r] obtain c r1 where
    wrap: "encrypt_rsa_oaep P k raw r = (Inr c, r1)" and unwrap: "decrypt_rsa_oaep P sk c = Inr raw"
    by auto
  let ?acc = "acc(u \<mapsto> arrayBufferToBase64 c)"
  have good: "\<forall>v w. ?acc v = Some w \<longrightarrow> unwraps P (priv v) w raw"
    using Cons.prems(3) imp(2) unwrap by (auto simp: unwraps_def base64_roundtrip)
  from Cons.prems(1) have rest: "\<forall>(u, pk) \<in> set M. rsa_pair P (ParticipantKey.publicKey pk) (priv u)"
    by simp
  from Cons.IH[OF rest Cons.prems(2) good, of r1] obtain enc r' where
    ih: "encryptForMembers P raw M ?acc r1 = (Inr enc, r')"
        "dom enc = dom ?acc \<union> fst ` set M"
        "\<forall>u w. enc u = Some w \<longrightarrow> unwraps P (priv u) w raw"
    by blast
  have "encryptForMembers P raw (entry # M) acc r = (Inr enc, r')"
    by (simp add: entry importPublicKey_def imp wrap ih(1))
  moreover have "dom enc = dom acc \<union> fst ` set (entry # M)"
    using ih(2) entry by auto
  ultimately show ?case using ih(3) by blast
qed

lemma bundle_created:
  assumes aes: "aes_gcm_correct P"
    and pairs: "\<forall>(u, pk) \<in> set M. rsa_pair P (ParticipantKey.publicKey pk) (priv u)"
  shows "\<exists>k s kid enc r1 raw.
           generateKey_aes P r = (Inr k, s) \<and>
           createGroupKeyBundle P now M creator r =
             (Inr \<lparr>keyBundle = \<lparr>GroupKeyBundle.keyId = kid, encryptedKeys = enc,
                                 createdAt = now, createdBy = creator\<rparr>,
                   groupKey = k\<rparr>, r1) \<and>
           aes_key_ok P k \<and> importKey_raw_aes P raw = Inr k \<and>
           dom enc = fst ` set M \<and>
           (\<forall>u w. enc u = Some w \<longrightarrow> unwraps P (priv u) w raw)"
proof -
  from aes obtain k s raw where
    gen: "generateKey_aes P r = (Inr k, s)" and ok: "aes_key_ok P k"
    and raw: "exportKey_raw P k = Inr raw" "length raw = 32" "importKey_raw_aes P raw = Inr k"
    unfolding aes_gcm_correct_def by blast
  obtain kid s1 where kid: "generateKeyId P s = (kid, s1)" by (cases "generateKeyId P s")
  have len: "length raw \<le> 190" using raw(2) by simp
  have empty: "\<forall>u w. Map.empty u = Some w \<longrightarrow> unwraps P (priv u) w raw" by simp
  from encryptForMembers_ok[OF pairs len empty, of s1] obtain enc r1 where
    loop: "encryptForMembers P raw M Map.empty s1 = (Inr enc, r1)"
          "dom enc = dom (Map.empty :: string \<rightharpoonup> string) \<union> fst ` set M"
          "\<forall>u w. enc u = Some w \<longrightarrow> unwraps P (priv u) w raw"
    by blast
  have "createGroupKeyBundle P now M creator r =
          (Inr \<lparr>keyBundle = \<lparr>GroupKeyBundle.keyId = kid, encryptedKeys = enc,
                              createdAt = now, createdBy = creator\<rparr>,
                groupKey = k\<rparr>, r1)"
    by (simp add: createGroupKeyBundle_def generateGroupSymmetricKey_def gen kid
        exportSymmetricKey_def raw loop(1))
  with gen ok raw(3) loop(2,3) show ?thesis by auto
qed





lemma toy_members_pairs:
  "\<forall>(u, pk) \<in> set toy_members. rsa_pair toy (ParticipantKey.publicKey pk) (toy_private u)"
  by (simp add: toy_members_def toy_private_def toy_rsa_pair)


lemma toy_keygen_collision_free: "keygen_collision_free toy"
  by (simp add: keygen_collision_free_def replicate_eq_replicate)

lemma toy_aead_key_binding: "aead_key_binding toy"
  by (auto simp: aead_key_binding_def toy_encrypt_aes_def toy_decrypt_aes_def
      split: toy_key.splits if_splits dest: toy_tag_inj)

text \<open>
  Claim C3. \<open>rotateGroupKey\<close> is \<open>createGroupKeyBundle\<close> on the remaining members. For
  every such list that does not contain \<open>X\<close> and every initiator it succeeds, its
  bundle has no \<open>encryptedKeys\<close> entry for \<open>X\<close>, its group key is the key the platform
  generates from the entropy state of this call, that key differs from the previous key
  \<open>oldKey\<close>, and no message encrypted under it decrypts under \<open>oldKey\<close>. The last two
  parts hold in the symbolic reading of the cryptography: the previous key came from
  another entropy state of a generator that never repeats a key, and the cipher rejects
  a ciphertext under every other key.
\<close>

theorem rotation_excludes_removed_member:
  assumes "aes_gcm_correct P" and "keygen_collision_free P" and "aead_key_binding P"
    and "\<forall>(u, pk) \<in> set R. rsa_pair P (ParticipantKey.publicKey pk) (priv u)"
    and "X \<notin> fst ` set R"
    and "generateKey_aes P r0 = (Inr oldKey, s0)" and "r \<noteq> r0"
  shows "rotateGroupKey P now R initiator r = createGroupKeyBundle P now R initiator r \<and>
         (\<exists>res r1. rotateGroupKey P now R initiator r = (Inr res, r1) \<and>
            encryptedKeys (keyBundle res) X = None \<and>
            (\<exists>s. generateKey_aes P r = (Inr (groupKey res), s)) \<and>
            groupKey res \<noteq> oldKey \<and>
            (\<forall>p kid r2. \<exists>msg r3 e.
                encryptGroupMessage P p (groupKey res) kid r2 = (Inr msg, r3) \<and>
                decryptGroupMessage P msg oldKey = Inl e))"
proof -
  from bundle_created[OF assms(1,4), of r now initiator] obtain k s kid enc r1 raw where
    g: "generateKey_aes P r = (Inr k, s)" and
    b: "createGroupKeyBundle P now R initiator r =
          (Inr \<lparr>keyBundle = \<lparr>GroupKeyBundle.keyId = kid, encryptedKeys = enc,
                              createdAt = now, createdBy = initiator\<rparr>,
                groupKey = k\<rparr>, r1)"
    and ok: "aes_key_ok P k" and imp: "importKey_raw_aes P raw = Inr k"
    and d: "dom enc = fst ` set R"
    and u: "\<forall>u w. enc u = Some w \<longrightarrow> unwraps P (priv u) w raw"
    by (elim exE conjE) (rule that)
  have noX: "enc X = None" using d assms(5) by (metis domIff)
  have fresh: "k \<noteq> oldKey"
  proof
    assume "k = oldKey"
    with g assms(6) assms(2) have "r = r0" unfolding keygen_collision_free_def by blast
    with assms(7) show False by simp
  qed
  have sealed: "\<exists>msg r3 e. encryptGroupMessage P p k kid' r2 = (Inr msg, r3) \<and>
                  decryptGroupMessage P msg oldKey = Inl e" for p kid' r2
  proof -
    obtain nonce r3 where rnd: "getRandomValues P 12 r2 = (nonce, r3)"
      by (cases "getRandomValues P 12 r2")
    from ok obtain c where enc: "encrypt_aes_gcm P k nonce (textEncode P p) = Inr c"
      unfolding aes_key_ok_def by blast
    from assms(3) enc fresh obtain e where "decrypt_aes_gcm P oldKey nonce c = Inl e"
      unfolding aead_key_binding_def by (metis)
    then show ?thesis
      by (simp add: encryptGroupMessage_def decryptGroupMessage_def rnd enc base64_roundtrip)
  qed
  show ?thesis
    using b g noX fresh sealed by (simp add: rotateGroupKey_def)
qed


text \<open>Alice and Bob remain after Carol was removed; the previous key was generated at the
  entropy state 0, the rotation runs at the state 5.\<close>

theorem rotation_excludes_removed_member_witness:
  "\<exists>res r1. rotateGroupKey toy 0 toy_members ''alice'' 5 = (Inr res, r1) \<and>
     encryptedKeys (keyBundle res) ''carol'' = None \<and>
     (\<exists>s. generateKey_aes toy 5 = (Inr (groupKey res), s)) \<and>
     groupKey res \<noteq> AesKey (replicate 32 0) \<and>
     (\<forall>p kid r2. \<exists>msg r3 e.
         encryptGroupMessage toy p (groupKey res) kid r2 = (Inr msg, r3) \<and>
         decryptGroupMessage toy msg (AesKey (replicate 32 0)) = Inl e)"
proof -
  have x: "''carol'' \<notin> fst ` set toy_members" by (simp add: toy_members_def)
  have old: "generateKey_aes toy 0 = (Inr (AesKey (replicate 32 0)), 1)" by simp
  have later: "(5::byte) \<noteq> 0" by simp
  from rotation_excludes_removed_member[OF toy_aes_gcm_correct toy_keygen_collision_free
      toy_aead_key_binding toy_members_pairs x old later, of 0 "''alice''"]
  show ?thesis by blast
qed

lemma derive_ok:
  assumes "pbkdf2_correct P"
  shows "\<exists>dk. deriveKeyFromPassword P pwd saltBytes iters = Inr dk \<and> aes_key_ok P dk"
proof -
  from assms obtain pk dk where
    "importKey_raw_pbkdf2 P (textEncode P pwd) = Inr pk"
    "deriveKey_pbkdf2 P pk saltBytes iters = Inr dk" "aes_key_ok P dk"
    unfolding pbkdf2_correct_def by blast
  then show ?thesis by (simp add: deriveKeyFromPassword_def)
qed

lemma export_rejects_short:
  "length pwd < 8 \<Longrightarrow>
     exportPrivateKeys P now K pwd r = (Inl (Error ''Password must be at least 8 characters''), r)"
  by (simp add: exportPrivateKeys_def)

lemma backup_round_trip_long:
  assumes pb: "pbkdf2_correct P" and js: "json_roundtrip P K" and len: "8 \<le> length pwd"
  shows "\<exists>bundle r'. exportPrivateKeys P now K pwd r = (Inr bundle, r') \<and>
           importPrivateKeys P bundle pwd = Inr K"
proof -
  obtain saltBytes r1 where s: "getRandomValues P 32 r = (saltBytes, r1)"
    by (cases "getRandomValues P 32 r")
  obtain nonce r2 where n: "getRandomValues P 12 r1 = (nonce, r2)"
    by (cases "getRandomValues P 12 r1")
  from derive_ok[OF pb, of pwd saltBytes 100000] obtain dk where
    dk: "deriveKeyFromPassword P pwd saltBytes 100000 = Inr dk" and ok: "aes_key_ok P dk"
    by blast
  from ok obtain c where
    enc: "encrypt_aes_gcm P dk nonce (textEncode P (json_stringify P K)) = Inr c"
    and ne: "c \<noteq> []"
    and dec: "decrypt_aes_gcm P dk nonce c = Inr (textEncode P (json_stringify P K))"
    unfolding aes_key_ok_def by blast
  let ?exported = "\<lparr>EncryptedKeyBundle.version = ''1.0'', algorithm = ''PBKDF2-AES-GCM-256'',
                  iterations = 100000, salt = arrayBufferToBase64 saltBytes,
                  iv = arrayBufferToBase64 nonce, ciphertext = arrayBufferToBase64 c,
                  exportedAt = toISOString P now\<rparr>"
  have pw: "pwd \<noteq> []" "\<not> length pwd < 8" using len by auto
  have 1: "exportPrivateKeys P now K pwd r = (Inr ?exported, r2)"
    by (simp add: exportPrivateKeys_def pw s n dk enc Let_def)
  have 2: "importPrivateKeys P ?exported pwd = Inr K"
    using js
    by (simp add: importPrivateKeys_def pw ne arrayBufferToBase64_empty_iff base64_roundtrip
        dk dec json_roundtrip_def Let_def)
  from 1 2 show ?thesis by blast
qed

text \<open>
  Claim C6. On a platform whose PBKDF2 and AES-GCM work, for every key map that
  survives JSON serialisation: with a password of at least 8 characters
  \<open>exportPrivateKeys\<close> succeeds and \<open>importPrivateKeys\<close> of its bundle with the same
  password returns the key map; with a shorter password \<open>exportPrivateKeys\<close> rejects
  with the \<open>Error\<close> "Password must be at least 8 characters" (the validation error),
  drawing no randomness and producing no bundle.
\<close>

theorem backup_round_trip:
  assumes "pbkdf2_correct P" and "json_roundtrip P K"
  shows "(8 \<le> length pwd \<longrightarrow>
            (\<exists>bundle r'. exportPrivateKeys P now K pwd r = (Inr bundle, r') \<and>
               importPrivateKeys P bundle pwd = Inr K)) \<and>
         (length pwd < 8 \<longrightarrow>
            exportPrivateKeys P now K pwd r =
              (Inl (Error ''Password must be at least 8 characters''), r))"
proof (intro conjI impI)
  assume "8 \<le> length pwd"
  with assms show "\<exists>bundle r'. exportPrivateKeys P now K pwd r = (Inr bundle, r') \<and>
                     importPrivateKeys P bundle pwd = Inr K"
    by (rule backup_round_trip_long)
next
  assume "length pwd < 8"
  then show "exportPrivateKeys P now K pwd r =
               (Inl (Error ''Password must be at least 8 characters''), r)"
    by (rule export_rejects_short)
qed

lemma toy_json_roundtrip: "json_roundtrip toy [(''k1'', RsaPrivate 7)]"
  unfolding json_roundtrip_def by code_simp

text \<open>One key under the password \<open>password\<close>, and the seven characters
  \<open>1234567\<close>.\<close>

theorem backup_round_trip_witness:
  "(\<exists>bundle r'. exportPrivateKeys toy 0 [(''k1'', RsaPrivate 7)] ''password'' 3 = (Inr bundle, r') \<and>
      importPrivateKeys toy bundle ''password'' = Inr [(''k1'', RsaPrivate 7)]) \<and>
   exportPrivateKeys toy 0 [(''k1'', RsaPrivate 7)] ''1234567'' 3 =
     (Inl (Error ''Password must be at least 8 characters''), 3)"
  using backup_round_trip[OF toy_pbkdf2_correct toy_json_roundtrip, of "''password''" 0 3]
    backup_round_trip[OF toy_pbkdf2_correct toy_json_roundtrip, of "''1234567''" 0 3]
  by simp

text \<open>
  Claim C4, as the code has it. \<open>decryptMessage\<close> and \<open>decryptGroupMessage\<close> never read
  the \<open>version\<close> field: whatever version a payload carries, the result is the one for
  the same payload with any other version, a \<open>tt-e1\<close> payload included. Nothing is
  rejected for its version.
\<close>

theorem decrypt_ignores_version:
  "decryptMessage P (payload\<lparr>EncryptedMessage.version := v\<rparr>) jpriv = decryptMessage P payload jpriv
   \<and> decryptGroupMessage P (gpayload\<lparr>GroupEncryptedMessage.version := v\<rparr>) gk
       = decryptGroupMessage P gpayload gk"
  by (simp add: decryptMessage_def decryptGroupMessage_def)

text \<open>Against the claim as stated: payloads of version \<open>tt-e0\<close> are decrypted, not
  rejected.\<close>

theorem version_not_rejected:
  "decryptMessage toy payload_v0 (RsaPrivate 0) = Inr ''hi'' \<and>
   decryptGroupMessage toy group_payload_v0 (AesKey (replicate 32 1)) = Inr ''hi''"
  by code_simp




section \<open>Disappearing messages\<close>

lemma startMessageTimer_registered:
  "activeTimers s (messageId m) \<noteq> None \<Longrightarrow> startMessageTimer now m cb s = s"
  by (simp add: startMessageTimer_def)

lemma startMessageTimer_future:
  assumes "expiresAt m = Some e" "now < e" "activeTimers s (messageId m) = None"
  shows "startMessageTimer now m cb s =
           s\<lparr>pending := pending s @
                 [\<lparr>handle = nextHandle s, delay = e - now, forId = messageId m, callback = cb\<rparr>],
             nextHandle := Suc (nextHandle s),
             activeTimers := (activeTimers s)(messageId m \<mapsto> nextHandle s)\<rparr>"
  using assms by (simp add: startMessageTimer_def truthy_def Let_def nat_diff_distrib')

text \<open>
  Claim C7. For every message with an \<open>expiresAt\<close> in the future and every scheduler
  state: after \<open>startMessageTimer\<close>, a second \<open>startMessageTimer\<close> for a message of the
  same id (at any later clock, with any callback) changes nothing; the id is registered
  then; the two calls together have armed one host timer for the id when none was
  registered before and none otherwise. And \<open>cancelMessageTimer\<close> for an id with no
  registered timer leaves the whole state, the timer map included, as it was.
\<close>

theorem timer_idempotence:
  assumes "expiresAt m = Some e" and "now < e" and "messageId m' = messageId m"
  shows "startMessageTimer now' m' cb' (startMessageTimer now m cb s) = startMessageTimer now m cb s
       \<and> activeTimers (startMessageTimer now m cb s) (messageId m) \<noteq> None
       \<and> length (filter (\<lambda>t. forId t = messageId m)
            (pending (startMessageTimer now' m' cb' (startMessageTimer now m cb s))))
          = length (filter (\<lambda>t. forId t = messageId m) (pending s))
            + (if activeTimers s (messageId m) = None then 1 else 0)
       \<and> (activeTimers s i = None \<longrightarrow> cancelMessageTimer i s = s)"
proof -
  have reg: "activeTimers (startMessageTimer now m cb s) (messageId m) \<noteq> None"
  proof (cases "activeTimers s (messageId m) = None")
    case True
    with assms show ?thesis by (simp add: startMessageTimer_future)
  next
    case False
    then show ?thesis by (simp add: startMessageTimer_registered)
  qed
  then have "activeTimers (startMessageTimer now m cb s) (messageId m') \<noteq> None"
    using assms(3) by simp
  then have noop: "startMessageTimer now' m' cb' (startMessageTimer now m cb s)
                     = startMessageTimer now m cb s"
    by (rule startMessageTimer_registered)
  have cnt: "length (filter (\<lambda>t. forId t = messageId m) (pending (startMessageTimer now m cb s)))
          = length (filter (\<lambda>t. forId t = messageId m) (pending s))
            + (if activeTimers s (messageId m) = None then 1 else 0)"
  proof (cases "activeTimers s (messageId m) = None")
    case True
    with assms show ?thesis by (simp add: startMessageTimer_future)
  next
    case False
    then show ?thesis by (simp add: startMessageTimer_registered)
  qed
  have cancel: "activeTimers s i = None \<longrightarrow> cancelMessageTimer i s = s"
    by (simp add: cancelMessageTimer_def)
  from reg noop cnt cancel show ?thesis by simp
qed

text \<open>The message expiring at 2000, started at 1000 and again at 1500 on the scheduler
  with no timer.\<close>

theorem timer_idempotence_witness:
  "startMessageTimer 1500 message_future ''again'' (startMessageTimer 1000 message_future ''first'' scheduler0)
     = startMessageTimer 1000 message_future ''first'' scheduler0
   \<and> activeTimers (startMessageTimer 1000 message_future ''first'' scheduler0) ''m2'' = Some 1
   \<and> length (pending (startMessageTimer 1500 message_future ''again''
        (startMessageTimer 1000 message_future ''first'' scheduler0))) = 1
   \<and> cancelMessageTimer ''m2'' scheduler0 = scheduler0"
proof -
  have e: "expiresAt message_future = Some 2000" by (simp add: message_future_def)
  have lt: "(1000::nat) < 2000" by simp
  have un: "activeTimers scheduler0 ''m2'' = None" by (simp add: scheduler0_def)
  from timer_idempotence[OF e lt refl, of 1500 "''again''" "''first''" scheduler0 "''m2''"] un
  show ?thesis
    by (simp add: startMessageTimer_def truthy_def message_future_def scheduler0_def)
qed




lemma cleanup_loop_partition:
  "cleanupExpiredMessages_loop del now conv ms valid w =
     (valid @ filter (\<lambda>m. expiresAt m = None \<or> expiresAt m = Some 0 \<or>
                         (\<exists>e. expiresAt m = Some e \<and> now < e)) ms,
      \<lparr>requested = requested w @
         map (\<lambda>m. (conv, messageId m))
           (filter (\<lambda>m. \<exists>e. expiresAt m = Some e \<and> e \<noteq> 0 \<and> e \<le> now) ms),
       logged = logged w @
         List.map_filter
           (\<lambda>m. if (\<exists>e. expiresAt m = Some e \<and> e \<noteq> 0 \<and> e \<le> now)
                then map_option (Pair ''Failed to delete expired message:'') (del conv (messageId m))
                else None) ms\<rparr>)"
proof (induction ms arbitrary: valid w)
  case Nil
  then show ?case by (simp add: map_filter_simps)
next
  case (Cons m ms)
  show ?case
  proof (cases "expiresAt m")
    case None
    then show ?thesis by (simp add: Cons truthy_def map_filter_simps)
  next
    case (Some e)
    then show ?thesis
      by (cases "del conv (messageId m)")
         (auto simp: Cons truthy_def map_filter_simps deleteMessage_catch_def)
  qed
qed

text \<open>
  Claim C9, as the code has it. \<open>cleanupExpiredMessages\<close> returns, in their order,
  exactly the messages whose \<open>expiresAt\<close> is absent, zero or still in the future; it
  requests the deletion of every other message (\<open>expiresAt\<close> not zero and not after
  the clock) once, in order, under the given conversation id; and whatever the sink
  answers, the call returns this list: a rejected deletion only adds a line to the log.
\<close>

theorem cleanup_partition:
  "cleanupExpiredMessages del now ms conv w =
     (filter (\<lambda>m. expiresAt m = None \<or> expiresAt m = Some 0 \<or>
                  (\<exists>e. expiresAt m = Some e \<and> now < e)) ms,
      \<lparr>requested = requested w @
         map (\<lambda>m. (conv, messageId m))
           (filter (\<lambda>m. \<exists>e. expiresAt m = Some e \<and> e \<noteq> 0 \<and> e \<le> now) ms),
       logged = logged w @
         List.map_filter
           (\<lambda>m. if (\<exists>e. expiresAt m = Some e \<and> e \<noteq> 0 \<and> e \<le> now)
                then map_option (Pair ''Failed to delete expired message:'') (del conv (messageId m))
                else None) ms\<rparr>)"
  by (simp add: cleanupExpiredMessages_def cleanup_loop_partition)

text \<open>Against the claim as stated: a message with \<open>expiresAt = 0\<close>, which is neither
  absent nor in the future at the clock 1000, is returned and its deletion is not
  requested.\<close>

theorem cleanup_keeps_zero_expiry:
  "cleanupExpiredMessages (\<lambda>c m. None) 1000 [message_zero] ''c1'' effects0
     = ([message_zero], effects0)"
  by (simp add: cleanupExpiredMessages_def truthy_def message_zero_def effects0_def)

text \<open>
  Claim C10, as the code has it. When \<open>startMessageTimer\<close> is called for a message
  whose \<open>expiresAt\<close> is a timestamp other than zero, now or in the past, and whose id has
  no registered timer, it invokes \<open>onExpire\<close> and changes nothing else: the timer map
  and the host's timers are as before, \<open>getActiveTimerCount\<close> is unchanged, and a
  later \<open>startMessageTimer\<close> for the same message invokes its callback again.
\<close>

theorem immediate_expiry_not_registered:
  assumes "expiresAt m = Some e" and "e \<noteq> 0" and "e \<le> now" and "e \<le> now'"
    and "activeTimers s (messageId m) = None"
  shows "startMessageTimer now m cb s = s\<lparr>invoked := invoked s @ [cb]\<rparr>
       \<and> activeTimers (startMessageTimer now m cb s) = activeTimers s
       \<and> pending (startMessageTimer now m cb s) = pending s
       \<and> getActiveTimerCount (startMessageTimer now m cb s) = getActiveTimerCount s
       \<and> startMessageTimer now' m cb' (startMessageTimer now m cb s)
           = s\<lparr>invoked := invoked s @ [cb, cb']\<rparr>"
  using assms
  by (simp add: startMessageTimer_def truthy_def getActiveTimerCount_def Let_def)

text \<open>The message that expired at 500, started at 1000 and again at 1200.\<close>

theorem immediate_expiry_not_registered_witness:
  "startMessageTimer 1000 message_past ''cb'' scheduler0 = scheduler0\<lparr>invoked := [''cb'']\<rparr>
   \<and> getActiveTimerCount (startMessageTimer 1000 message_past ''cb'' scheduler0) = 0
   \<and> startMessageTimer 1200 message_past ''cb'' (startMessageTimer 1000 message_past ''cb'' scheduler0)
       = scheduler0\<lparr>invoked := [''cb'', ''cb'']\<rparr>"
proof -
  have e: "expiresAt message_past = Some 500" by (simp add: message_past_def)
  have un: "activeTimers scheduler0 (messageId message_past) = None" by (simp add: scheduler0_def)
  have c0: "getActiveTimerCount scheduler0 = 0"
    by (simp add: getActiveTimerCount_def scheduler0_def)
  have i0: "invoked scheduler0 = []" by (simp add: scheduler0_def)
  have th: "startMessageTimer 1000 message_past ''cb'' scheduler0
               = scheduler0\<lparr>invoked := invoked scheduler0 @ [''cb'']\<rparr>
       \<and> activeTimers (startMessageTimer 1000 message_past ''cb'' scheduler0) = activeTimers scheduler0
       \<and> pending (startMessageTimer 1000 message_past ''cb'' scheduler0) = pending scheduler0
       \<and> getActiveTimerCount (startMessageTimer 1000 message_past ''cb'' scheduler0)
           = getActiveTimerCount scheduler0
       \<and> startMessageTimer 1200 message_past ''cb''
             (startMessageTimer 1000 message_past ''cb'' scheduler0)
           = scheduler0\<lparr>invoked := invoked scheduler0 @ [''cb'', ''cb'']\<rparr>"
    by (rule immediate_expiry_not_registered[OF e _ _ _ un]) simp_all
  from th have 1: "startMessageTimer 1000 message_past ''cb'' scheduler0
                     = scheduler0\<lparr>invoked := invoked scheduler0 @ [''cb'']\<rparr>"
    by (rule conjunct1)
  from th have 2: "getActiveTimerCount (startMessageTimer 1000 message_past ''cb'' scheduler0)
                     = getActiveTimerCount scheduler0"
    by blast
  from th have 3: "startMessageTimer 1200 message_past ''cb''
                     (startMessageTimer 1000 message_past ''cb'' scheduler0)
                   = scheduler0\<lparr>invoked := invoked scheduler0 @ [''cb'', ''cb'']\<rparr>"
    by blast
  show ?thesis
  proof (intro conjI)
    show "startMessageTimer 1000 message_past ''cb'' scheduler0 = scheduler0\<lparr>invoked := [''cb'']\<rparr>"
      using 1 i0 by simp
    show "getActiveTimerCount (startMessageTimer 1000 message_past ''cb'' scheduler0) = 0"
      using 2 c0 by simp
    show "startMessageTimer 1200 message_past ''cb''
            (startMessageTimer 1000 message_past ''cb'' scheduler0)
          = scheduler0\<lparr>invoked := [''cb'', ''cb'']\<rparr>"
      using 3 i0 by simp
  qed
qed

text \<open>Against the claim as stated: a message with \<open>expiresAt = 0\<close> is past at the clock
  1000, yet \<open>startMessageTimer\<close> returns at its first test and never invokes the
  callback; and for the message that expired at 500, a call at 1000 invokes nothing
  while the timer armed for it at 100 is still registered.\<close>

theorem zero_expiry_never_fires:
  "startMessageTimer 1000 message_zero ''cb'' scheduler0 = scheduler0 \<and>
   invoked (startMessageTimer 1000 message_zero ''cb'' scheduler0) = [] \<and>
   invoked (startMessageTimer 1000 message_past ''cb''
              (startMessageTimer 100 message_past ''cb'' scheduler0)) = []"
  by (simp add: startMessageTimer_def truthy_def message_zero_def message_past_def scheduler0_def)

end
